theory Spec2Isabelle
  imports Complex_Main "HOL-Library.Word"
begin

section \<open>Pulsating-dot frame generator (\<open>smTIRF_simulation_2.py\<close>)\<close>

text \<open>
  A shallow embedding of the generator. Python integers are \<open>int\<close> and \<open>np.uint8\<close>
  is \<open>8 word\<close>. A Python float is represented by the real number it denotes (NaN and
  infinities, which the program never produces from its own random draws, are not
  represented). Floating-point arithmetic is not exact: every addition,
  multiplication and division on floats in \<open>Dot.update\<close> and \<open>Dot.get_size\<close>, every
  conversion of an integer operand and every float literal there goes through the
  rounding function of a floating-point format, and \<open>math.sin\<close> is the sine function
  of that format; both are parameters, so that what is proved holds for the binary64
  arithmetic the program runs on. Comparisons, \<open>max\<close>, \<open>min\<close> and \<open>int(v)\<close>
  (truncation toward zero) are exact.
  A \<open>Dot\<close> object is a record, a method that mutates \<open>self\<close> returns the new record,
  and a list of distinct \<open>Dot\<close> objects is a list of records.
  The modules \<open>random\<close> and \<open>cv2\<close> are not part of the program: their functions are
  passed in as parameters and nothing is assumed about them; the arguments the program
  hands to them are written as they stand in the source.
  Console output is represented only by the numbers it reports.
\<close>

subsection \<open>Module constants\<close>

definition WIDTH :: int where "WIDTH = 512"
definition HEIGHT :: int where "HEIGHT = 512"
definition FRAMES :: nat where "FRAMES = 500"

definition NUM_DOTS :: int where "NUM_DOTS = 200"
definition MOVING_PERCENTAGE :: real where "MOVING_PERCENTAGE = 0.1"
definition STATIC_BRIGHT_PERCENTAGE :: real where "STATIC_BRIGHT_PERCENTAGE = 0.05"
definition MAX_DOT_SIZE :: int where "MAX_DOT_SIZE = 5"
definition MOVE_SPEED :: int where "MOVE_SPEED = 2"

definition BLUR_KERNEL_SIZE :: int where "BLUR_KERNEL_SIZE = 15"
definition BLUR_SIGMA :: real where "BLUR_SIGMA = 5.0"

subsection \<open>Python primitives\<close>

text \<open>\<open>int(v)\<close> on a float: the integer part, truncated toward zero.\<close>

definition py_int :: "real \<Rightarrow> int" where
  "py_int v = (if 0 \<le> v then \<lfloor>v\<rfloor> else \<lceil>v\<rceil>)"

text \<open>
  A floating-point format: \<open>rnd\<close> rounds a real number to the format, \<open>fsin\<close> is its
  \<open>math.sin\<close>. An arithmetic operation returns the rounded exact result; an integer
  operand is converted first; a literal denotes the rounding of its decimal value.
\<close>

record float_arith =
  rnd :: "real \<Rightarrow> real"
  fsin :: "real \<Rightarrow> real"

definition to_float :: "float_arith \<Rightarrow> int \<Rightarrow> real" where
  "to_float F k = rnd F (real_of_int k)"

definition fl_add :: "float_arith \<Rightarrow> real \<Rightarrow> real \<Rightarrow> real" where
  "fl_add F a b = rnd F (a + b)"

definition fl_mul :: "float_arith \<Rightarrow> real \<Rightarrow> real \<Rightarrow> real" where
  "fl_mul F a b = rnd F (a * b)"

definition fl_div :: "float_arith \<Rightarrow> real \<Rightarrow> real \<Rightarrow> real" where
  "fl_div F a b = rnd F (a / b)"

text \<open>
  What the proofs below use of binary64 with round-to-nearest and of its sine:
  rounding is monotone and commutes with negation; a number \<open>k / 2 ^ j\<close> with
  \<open>\<bar>k\<bar> \<le> 2 ^ 53\<close> and \<open>j \<le> 1000\<close> is a value of the format, so it rounds to itself;
  the sine returns values in \<open>[-1, 1]\<close> and \<open>0\<close> at \<open>0\<close>.
\<close>

definition binary64_like :: "float_arith \<Rightarrow> bool" where
  "binary64_like F \<longleftrightarrow>
     (\<forall>a b. a \<le> b \<longrightarrow> rnd F a \<le> rnd F b)
   \<and> (\<forall>v. rnd F (- v) = - rnd F v)
   \<and> (\<forall>k j. \<bar>k\<bar> \<le> 2 ^ 53 \<and> j \<le> (1000 :: nat) \<longrightarrow>
         rnd F (real_of_int k / 2 ^ j) = real_of_int k / 2 ^ j)
   \<and> (\<forall>v. - 1 \<le> fsin F v \<and> fsin F v \<le> 1)
   \<and> fsin F 0 = 0"

text \<open>
  The functions of module \<open>random\<close> the program calls, threading a generator state
  of an arbitrary type \<open>'g\<close>.
\<close>

record 'g random_module =
  randint :: "int \<Rightarrow> int \<Rightarrow> 'g \<Rightarrow> int \<times> 'g"
  uniform :: "real \<Rightarrow> real \<Rightarrow> 'g \<Rightarrow> real \<times> 'g"

subsection \<open>class Dot\<close>

record dot =
  x :: real
  y :: real
  initial_x :: real
  initial_y :: real
  is_moving :: bool
  is_static_bright :: bool
  phase :: real
  dx :: real
  dy :: real

text \<open>
  \<open>Dot.__init__(x, y, is_moving, is_static_bright)\<close>: the phase is drawn first, then,
  for a moving dot only, the two velocity components.
\<close>

definition Dot_init ::
  "'g random_module \<Rightarrow> real \<Rightarrow> real \<Rightarrow> bool \<Rightarrow> bool \<Rightarrow> 'g \<Rightarrow> dot \<times> 'g" where
  "Dot_init R px py mv sb g =
     (let (ph, g1) = uniform R 0 (2 * pi) g in
      if mv then
        (let (vx, g2) = uniform R (- real_of_int MOVE_SPEED) (real_of_int MOVE_SPEED) g1;
             (vy, g3) = uniform R (- real_of_int MOVE_SPEED) (real_of_int MOVE_SPEED) g2
         in (\<lparr>x = px, y = py, initial_x = px, initial_y = py, is_moving = mv,
               is_static_bright = sb, phase = ph, dx = vx, dy = vy\<rparr>, g3))
      else
        (\<lparr>x = px, y = py, initial_x = px, initial_y = py, is_moving = mv,
           is_static_bright = sb, phase = ph, dx = 0, dy = 0\<rparr>, g1))"

text \<open>
  \<open>Dot.update(frame_num)\<close>, statement by statement: \<open>s1\<close> and \<open>s2\<close> are the object
  after the two additions, \<open>s3\<close> after the bounce on the x axis (the velocity is
  multiplied by \<open>-1\<close>, then the coordinate is clamped), \<open>s4\<close> after the bounce on the
  y axis. A coordinate that still holds the integer drawn by \<open>randint\<close> (at most 512)
  is a value of binary64, so its conversion to a float in the first addition changes
  nothing and is not written.
\<close>

definition update :: "float_arith \<Rightarrow> dot \<Rightarrow> int \<Rightarrow> dot" where
  "update F self frame_num =
     (if is_moving self then
        (let s1 = self\<lparr>x := fl_add F (x self) (dx self)\<rparr>;
             s2 = s1\<lparr>y := fl_add F (y s1) (dy s1)\<rparr>;
             s3 = (if x s2 \<le> 0 \<or> x s2 \<ge> real_of_int WIDTH then
                     (let a = s2\<lparr>dx := fl_mul F (dx s2) (to_float F (- 1))\<rparr>
                      in a\<lparr>x := max 0 (min (real_of_int WIDTH) (x a))\<rparr>)
                   else s2);
             s4 = (if y s3 \<le> 0 \<or> y s3 \<ge> real_of_int HEIGHT then
                     (let b = s3\<lparr>dy := fl_mul F (dy s3) (to_float F (- 1))\<rparr>
                      in b\<lparr>y := max 0 (min (real_of_int HEIGHT) (y b))\<rparr>)
                   else s3)
         in s4)
      else self)"

text \<open>
  \<open>Dot.get_size(frame_num)\<close>; \<open>pulse\<close> is its local variable of that name, the
  computed sinusoid.
\<close>

definition pulse :: "float_arith \<Rightarrow> dot \<Rightarrow> int \<Rightarrow> real" where
  "pulse F self frame_num =
     fsin F (fl_add F (fl_mul F (to_float F frame_num) (rnd F 0.2)) (phase self))"

definition get_size :: "float_arith \<Rightarrow> dot \<Rightarrow> int \<Rightarrow> int" where
  "get_size F self frame_num =
     (if is_static_bright self then MAX_DOT_SIZE * 2
      else
        (let sz = fl_div F
                    (fl_mul F (to_float F MAX_DOT_SIZE)
                       (fl_add F (pulse F self frame_num) (to_float F 1)))
                    (to_float F 2)
         in py_int sz))"


text \<open>\<open>Dot.is_true_event()\<close>.\<close>

definition is_true_event :: "dot \<Rightarrow> bool" where
  "is_true_event self = (\<not> is_moving self \<and> \<not> is_static_bright self)"

text \<open>
  \<open>Dot.to_dict()\<close>: a dictionary with six keys in the order written, holding numbers
  and booleans.
\<close>

datatype json = JNum real | JBool bool

definition to_dict :: "dot \<Rightarrow> (string \<times> json) list" where
  "to_dict self =
     [(''initial_x'', JNum (initial_x self)),
      (''initial_y'', JNum (initial_y self)),
      (''is_true_event'', JBool (is_true_event self)),
      (''is_moving'', JBool (is_moving self)),
      (''is_static_bright'', JBool (is_static_bright self)),
      (''is_pulsating'', JBool (\<not> is_static_bright self))]"

subsection \<open>\<open>create_dots\<close>\<close>

text \<open>
  The three counts computed at the head of \<open>create_dots\<close> (and again in \<open>main\<close>) from
  the module constants. The binary64 products \<open>200 * 0.1\<close> and \<open>200 * 0.05\<close> are
  exactly \<open>20.0\<close> and \<open>10.0\<close>, the exact products of the decimal constants written
  here; \<open>counts_in_floating_point\<close> below derives the same counts from the rounded
  products.
\<close>

definition num_moving :: int where
  "num_moving = py_int (real_of_int NUM_DOTS * MOVING_PERCENTAGE)"

definition num_static_bright :: int where
  "num_static_bright = py_int (real_of_int NUM_DOTS * STATIC_BRIGHT_PERCENTAGE)"

definition num_pulsating :: int where
  "num_pulsating = NUM_DOTS - num_moving - num_static_bright"

text \<open>
  \<open>for i in range(k): body\<close> for a body that does not read \<open>i\<close>; \<open>range(k)\<close> is
  empty for \<open>k \<le> 0\<close>, so the caller passes \<open>nat k\<close>.
\<close>

primrec for_range :: "nat \<Rightarrow> ('s \<Rightarrow> 's) \<Rightarrow> 's \<Rightarrow> 's" where
  "for_range 0 body s = s"
| "for_range (Suc k) body s = for_range k body (body s)"

text \<open>The bodies of the three loops; the state is the list \<open>dots\<close> and the generator.\<close>

fun add_moving_dot :: "'g random_module \<Rightarrow> dot list \<times> 'g \<Rightarrow> dot list \<times> 'g" where
  "add_moving_dot R (dots, g) =
     (let (px, g1) = randint R 50 (WIDTH - 50) g;
          (py, g2) = randint R 50 (HEIGHT - 50) g1;
          (d, g3) = Dot_init R (real_of_int px) (real_of_int py) True False g2
      in (dots @ [d], g3))"

fun add_static_bright_dot :: "'g random_module \<Rightarrow> dot list \<times> 'g \<Rightarrow> dot list \<times> 'g" where
  "add_static_bright_dot R (dots, g) =
     (let (px, g1) = randint R 0 WIDTH g;
          (py, g2) = randint R 0 HEIGHT g1;
          (d, g3) = Dot_init R (real_of_int px) (real_of_int py) False True g2
      in (dots @ [d], g3))"

fun add_pulsating_dot :: "'g random_module \<Rightarrow> dot list \<times> 'g \<Rightarrow> dot list \<times> 'g" where
  "add_pulsating_dot R (dots, g) =
     (let (px, g1) = randint R 0 WIDTH g;
          (py, g2) = randint R 0 HEIGHT g1;
          (d, g3) = Dot_init R (real_of_int px) (real_of_int py) False False g2
      in (dots @ [d], g3))"

definition create_dots :: "'g random_module \<Rightarrow> 'g \<Rightarrow> dot list \<times> 'g" where
  "create_dots R g =
     (let s0 = ([], g);
          s1 = for_range (nat num_moving) (add_moving_dot R) s0;
          s2 = for_range (nat num_static_bright) (add_static_bright_dot R) s1;
          s3 = for_range (nat num_pulsating) (add_pulsating_dot R) s2
      in s3)"

subsection \<open>\<open>draw_frame\<close>\<close>

text \<open>
  A frame is a \<open>height \<times> width \<times> channels\<close> array of \<open>uint8\<close>. \<open>np.zeros\<close> builds
  it; \<open>cv2.circle\<close> (which returns the image it drew on) and \<open>cv2.GaussianBlur\<close> are
  parameters.
\<close>

type_synonym frame = "8 word list list list"

definition np_zeros :: "int \<times> int \<times> int \<Rightarrow> frame" where
  "np_zeros shape =
     (case shape of (h, w, c) \<Rightarrow> replicate (nat h) (replicate (nat w) (replicate (nat c) 0)))"

record cv2_module =
  circle :: "frame \<Rightarrow> int \<times> int \<Rightarrow> int \<Rightarrow> int \<times> int \<times> int \<Rightarrow> int \<Rightarrow> frame"
  GaussianBlur :: "frame \<Rightarrow> int \<times> int \<Rightarrow> real \<Rightarrow> frame"

text \<open>
  The loop \<open>for dot in dots\<close> of \<open>draw_frame\<close>: every dot is updated, and drawn when
  its size is positive. It returns the image and the updated dots.
\<close>

fun draw_dots ::
  "float_arith \<Rightarrow> cv2_module \<Rightarrow> dot list \<Rightarrow> int \<Rightarrow> frame \<Rightarrow> frame \<times> dot list" where
  "draw_dots F cv [] frame_num fr = (fr, [])"
| "draw_dots F cv (d # ds) frame_num fr =
     (let d1 = update F d frame_num;
          sz = get_size F d1 frame_num;
          fr1 = (if sz > 0
                 then circle cv fr (py_int (x d1), py_int (y d1)) sz (255, 255, 255) (- 1)
                 else fr);
          (fr2, ds1) = draw_dots F cv ds frame_num fr1
      in (fr2, d1 # ds1))"

definition draw_frame ::
  "float_arith \<Rightarrow> cv2_module \<Rightarrow> dot list \<Rightarrow> int \<Rightarrow> frame \<times> dot list" where
  "draw_frame F cv dots frame_num =
     (let fr = np_zeros (HEIGHT, WIDTH, 3);
          (fr1, dots1) = draw_dots F cv dots frame_num fr;
          blurred_frame = GaussianBlur cv fr1 (BLUR_KERNEL_SIZE, BLUR_KERNEL_SIZE) BLUR_SIGMA
      in (blurred_frame, dots1))"

subsection \<open>\<open>save_dot_list\<close>\<close>

text \<open>
  What \<open>save_dot_list\<close> writes: the list dumped to the JSON file and the three numbers
  of the printed summary.
\<close>

record dot_list_output =
  dot_list :: "(string \<times> json) list list"
  true_events :: int
  false_events :: int
  total_dots :: int

definition save_dot_list :: "dot list \<Rightarrow> dot_list_output" where
  "save_dot_list dots =
     (let dl = map to_dict dots;
          te = int (length (filter is_true_event dots));
          fe = int (length dots) - te
      in \<lparr>dot_list = dl, true_events = te, false_events = fe,
           total_dots = int (length dots)\<rparr>)"

subsection \<open>main\<close>

text \<open>
  The loop \<open>for frame_num in range(FRAMES)\<close> of \<open>main\<close> over the list of its indices,
  carrying the dots and the list \<open>frames\<close>.
\<close>

fun frame_loop ::
  "float_arith \<Rightarrow> cv2_module \<Rightarrow> nat list \<Rightarrow> dot list \<Rightarrow> frame list
     \<Rightarrow> frame list \<times> dot list" where
  "frame_loop F cv [] dots frames = (frames, dots)"
| "frame_loop F cv (k # ks) dots frames =
     (let (fr, dots1) = draw_frame F cv dots (int k)
      in frame_loop F cv ks dots1 (frames @ [fr]))"

text \<open>\<open>main\<close> returns the manifest output and the frames handed to \<open>imwritemulti\<close>.\<close>

definition main ::
  "float_arith \<Rightarrow> 'g random_module \<Rightarrow> cv2_module \<Rightarrow> 'g \<Rightarrow> dot_list_output \<times> frame list" where
  "main F R cv g =
     (let (dots, g1) = create_dots R g;
          out = save_dot_list dots;
          (frames, dots1) = frame_loop F cv [0..<FRAMES] dots []
      in (out, frames))"

subsection \<open>The specification's vocabulary\<close>

text \<open>
  The specification speaks of one category per dot; the program stores two flags.
  A dot with both flags set has no single category.
\<close>

datatype category = Moving | StaticBright | StationaryPulsating

definition category_of :: "dot \<Rightarrow> category option" where
  "category_of d =
     (if is_moving d \<and> is_static_bright d then None
      else if is_moving d then Some Moving
      else if is_static_bright d then Some StaticBright
      else Some StationaryPulsating)"



text \<open>The dots after the first \<open>k\<close> frame indices have each been processed once, in order.\<close>

primrec dots_at :: "float_arith \<Rightarrow> dot list \<Rightarrow> nat \<Rightarrow> dot list" where
  "dots_at F ds 0 = ds"
| "dots_at F ds (Suc k) = map (\<lambda>d. update F d (int k)) (dots_at F ds k)"

text \<open>
  The image the specification describes for one frame: in population order, a dot of
  positive size is drawn on the image so far, any other dot leaves it as it is.
\<close>

definition paint :: "float_arith \<Rightarrow> cv2_module \<Rightarrow> int \<Rightarrow> frame \<Rightarrow> dot \<Rightarrow> frame" where
  "paint F cv frame_num fr d =
     (if get_size F d frame_num > 0
      then circle cv fr (py_int (x d), py_int (y d)) (get_size F d frame_num) (255, 255, 255) (- 1)
      else fr)"

subsection \<open>Sample inputs\<close>

text \<open>
  A dot written out field by field: position (also the initial position), the two
  flags, phase and velocity. Used for concrete instances only.
\<close>

abbreviation (input) a_dot :: "real \<Rightarrow> real \<Rightarrow> bool \<Rightarrow> bool \<Rightarrow> real \<Rightarrow> real \<Rightarrow> real \<Rightarrow> dot" where
  "a_dot px py mv sb ph vx vy \<equiv>
     \<lparr>x = px, y = py, initial_x = px, initial_y = py, is_moving = mv,
      is_static_bright = sb, phase = ph, dx = vx, dy = vy\<rparr>"

text \<open>
  Exact arithmetic, the format in which nothing is rounded. Used for concrete
  instances only.
\<close>

abbreviation (input) exact_arith :: float_arith where
  "exact_arith \<equiv> \<lparr>rnd = (\<lambda>v. v), fsin = sin\<rparr>"

text \<open>
  Exact arithmetic again, with a sine that returns \<open>1\<close> at the binary64 number
  nearest to \<open>pi / 2\<close> and \<open>-1\<close> at the one nearest to \<open>3 * pi / 2\<close>, as the sine of
  binary64 does at these two numbers. Used for concrete instances only.
\<close>

abbreviation (input) sample_arith :: float_arith where
  "sample_arith \<equiv>
     \<lparr>rnd = (\<lambda>v. v),
      fsin = (\<lambda>v. if v = 884279719003555 / 562949953421312 then 1
                 else if v = 2652839157010665 / 562949953421312 then - 1
                 else sin v)\<rparr>"

section \<open>Auxiliary facts\<close>

subsection \<open>Rounding and the size formula\<close>



lemma rnd_mono: "binary64_like F \<Longrightarrow> a \<le> b \<Longrightarrow> rnd F a \<le> rnd F b"
  by (simp add: binary64_like_def)

lemma rnd_minus: "binary64_like F \<Longrightarrow> rnd F (- v) = - rnd F v"
  by (simp add: binary64_like_def)

lemma rnd_dyadic:
  "binary64_like F \<Longrightarrow> \<bar>k\<bar> \<le> 2 ^ 53 \<Longrightarrow> j \<le> 1000 \<Longrightarrow>
   rnd F (real_of_int k / 2 ^ j) = real_of_int k / 2 ^ j"
  unfolding binary64_like_def by blast

lemma rnd_int: "binary64_like F \<Longrightarrow> \<bar>k\<bar> \<le> 2 ^ 53 \<Longrightarrow> rnd F (real_of_int k) = real_of_int k"
  using rnd_dyadic [of F k 0] by simp

lemma to_float_small:
  "binary64_like F \<Longrightarrow> \<bar>k\<bar> \<le> 2 ^ 53 \<Longrightarrow> to_float F k = real_of_int k"
  by (simp add: to_float_def rnd_int)



lemma binary64_like_exact: "binary64_like exact_arith"
  by (simp add: binary64_like_def)


lemma negate_float:
  assumes "binary64_like F" and "rnd F v = v"
  shows "fl_mul F v (to_float F (- 1)) = - v"
proof -
  have "to_float F (- 1) = - 1"
    using to_float_small [OF assms(1), of "- 1"] by simp
  then have "fl_mul F v (to_float F (- 1)) = rnd F (- v)"
    by (simp add: fl_mul_def)
  also have "\<dots> = - v"
    by (simp add: rnd_minus [OF assms(1)] assms(2))
  finally show ?thesis .
qed













subsection \<open>What update leaves alone\<close>

lemma update_keeps:
  "is_moving (update F d n) = is_moving d"
  "is_static_bright (update F d n) = is_static_bright d"
  "phase (update F d n) = phase d"
  "initial_x (update F d n) = initial_x d"
  "initial_y (update F d n) = initial_y d"
  by (simp_all add: update_def Let_def)

lemma get_size_update: "get_size F (update F d n) m = get_size F d m"
  by (simp add: get_size_def pulse_def update_keeps)

lemma is_true_event_update: "is_true_event (update F d n) = is_true_event d"
  by (simp add: is_true_event_def update_keeps)

lemma category_of_update: "category_of (update F d n) = category_of d"
  by (simp add: category_of_def update_keeps)

subsection \<open>The drawing loop and the frame loop\<close>

lemma draw_dots_snd: "snd (draw_dots F cv ds n fr) = map (\<lambda>d. update F d n) ds"
  by (induction ds arbitrary: fr) (simp_all add: Let_def case_prod_beta)

lemma draw_dots_fst:
  "fst (draw_dots F cv ds n fr) = foldl (paint F cv n) fr (map (\<lambda>d. update F d n) ds)"
  by (induction ds arbitrary: fr) (simp_all add: Let_def paint_def case_prod_beta)

lemma draw_frame_snd: "snd (draw_frame F cv ds n) = map (\<lambda>d. update F d n) ds"
  by (simp add: draw_frame_def Let_def case_prod_beta draw_dots_snd)

lemma draw_frame_fst:
  "fst (draw_frame F cv ds n) =
     GaussianBlur cv (foldl (paint F cv n) (np_zeros (HEIGHT, WIDTH, 3)) (map (\<lambda>d. update F d n) ds))
       (BLUR_KERNEL_SIZE, BLUR_KERNEL_SIZE) BLUR_SIGMA"
  by (simp add: draw_frame_def Let_def case_prod_beta draw_dots_fst)

lemma paint_invisible: "get_size F d n = 0 \<Longrightarrow> paint F cv n fr (update F d n) = fr"
  by (simp add: paint_def get_size_update)

lemma dots_at_map:
  assumes "\<And>d n. f (update F d n) = f d"
  shows "map f (dots_at F ds k) = map f ds"
  by (induction k) (simp_all add: assms o_def)

lemma dots_at_fold:
  "dots_at F ds k = map (\<lambda>d. fold (\<lambda>j e. update F e (int j)) [0..<k] d) ds"
proof (induction k)
  case 0
  show ?case by (simp add: map_idI)
next
  case (Suc k)
  show ?case unfolding dots_at.simps Suc.IH by (simp add: o_def)
qed

lemma frame_loop_upt:
  "frame_loop F cv [a..<a + m] (dots_at F ds a) fs =
     (fs @ map (\<lambda>k. fst (draw_frame F cv (dots_at F ds k) (int k))) [a..<a + m],
      dots_at F ds (a + m))"
proof (induction m arbitrary: a fs)
  case 0
  then show ?case by simp
next
  case (Suc m)
  have cons: "[a..<a + Suc m] = a # [Suc a..<Suc a + m]"
    by (simp add: upt_conv_Cons)
  let ?fr = "fst (draw_frame F cv (dots_at F ds a) (int a))"
  have "frame_loop F cv [a..<a + Suc m] (dots_at F ds a) fs =
        frame_loop F cv [Suc a..<Suc a + m] (dots_at F ds (Suc a)) (fs @ [?fr])"
    unfolding cons by (simp add: case_prod_beta draw_frame_snd)
  also have "\<dots> = ((fs @ [?fr]) @
       map (\<lambda>k. fst (draw_frame F cv (dots_at F ds k) (int k))) [Suc a..<Suc a + m],
       dots_at F ds (Suc a + m))"
    by (rule Suc.IH)
  finally show ?case
    unfolding cons by simp
qed

subsection \<open>The population built by \<open>create_dots\<close>\<close>

lemma Dot_init_flags:
  "is_moving (fst (Dot_init R px py mv sb g)) = mv"
  "is_static_bright (fst (Dot_init R px py mv sb g)) = sb"
  "initial_x (fst (Dot_init R px py mv sb g)) = px"
  "initial_y (fst (Dot_init R px py mv sb g)) = py"
  "x (fst (Dot_init R px py mv sb g)) = px"
  "y (fst (Dot_init R px py mv sb g)) = py"
  by (simp_all add: Dot_init_def Let_def case_prod_beta)

lemma add_moving_dot_appends:
  "\<exists>d g1. add_moving_dot R (ds, g) = (ds @ [d], g1) \<and> is_moving d \<and> \<not> is_static_bright d"
proof -
  let ?r = "Dot_init R (real_of_int (fst (randint R 50 (WIDTH - 50) g)))
      (real_of_int (fst (randint R 50 (HEIGHT - 50) (snd (randint R 50 (WIDTH - 50) g)))))
      True False (snd (randint R 50 (HEIGHT - 50) (snd (randint R 50 (WIDTH - 50) g))))"
  have "add_moving_dot R (ds, g) = (ds @ [fst ?r], snd ?r)"
    by (simp add: Let_def case_prod_beta)
  then show ?thesis by (simp add: Dot_init_flags)
qed

lemma add_static_bright_dot_appends:
  "\<exists>d g1. add_static_bright_dot R (ds, g) = (ds @ [d], g1) \<and> \<not> is_moving d \<and> is_static_bright d"
proof -
  let ?r = "Dot_init R (real_of_int (fst (randint R 0 WIDTH g)))
      (real_of_int (fst (randint R 0 HEIGHT (snd (randint R 0 WIDTH g)))))
      False True (snd (randint R 0 HEIGHT (snd (randint R 0 WIDTH g))))"
  have "add_static_bright_dot R (ds, g) = (ds @ [fst ?r], snd ?r)"
    by (simp add: Let_def case_prod_beta)
  then show ?thesis by (simp add: Dot_init_flags)
qed

lemma add_pulsating_dot_appends:
  "\<exists>d g1. add_pulsating_dot R (ds, g) = (ds @ [d], g1) \<and> \<not> is_moving d \<and> \<not> is_static_bright d"
proof -
  let ?r = "Dot_init R (real_of_int (fst (randint R 0 WIDTH g)))
      (real_of_int (fst (randint R 0 HEIGHT (snd (randint R 0 WIDTH g)))))
      False False (snd (randint R 0 HEIGHT (snd (randint R 0 WIDTH g))))"
  have "add_pulsating_dot R (ds, g) = (ds @ [fst ?r], snd ?r)"
    by (simp add: Let_def case_prod_beta)
  then show ?thesis by (simp add: Dot_init_flags)
qed

lemma for_range_appends:
  assumes body: "\<And>ds g. \<exists>d g1. body (ds, g) = (ds @ [d], g1) \<and> P d"
  shows "\<exists>new g1. for_range k body (ds, g) = (ds @ new, g1) \<and> length new = k \<and> list_all P new"
proof (induction k arbitrary: ds g)
  case 0
  show ?case by simp
next
  case (Suc k)
  obtain d g1 where b: "body (ds, g) = (ds @ [d], g1)" and p: "P d"
    using body [of ds g] by blast
  obtain new g2 where r: "for_range k body (ds @ [d], g1) = ((ds @ [d]) @ new, g2)"
    and l: "length new = k" and a: "list_all P new"
    using Suc.IH [of "ds @ [d]" g1] by blast
  have "for_range (Suc k) body (ds, g) = (ds @ (d # new), g2)"
    using b r by simp
  moreover have "length (d # new) = Suc k" using l by simp
  moreover have "list_all P (d # new)" using p a by simp
  ultimately show ?case by blast
qed

lemma py_int_of_int: "py_int (real_of_int k) = k"
  by (simp add: py_int_def)

lemma counts_default:
  "num_moving = 20" "num_static_bright = 10" "num_pulsating = 170"
proof -
  have a: "real_of_int NUM_DOTS * MOVING_PERCENTAGE = real_of_int 20"
    by (simp add: NUM_DOTS_def MOVING_PERCENTAGE_def)
  have b: "real_of_int NUM_DOTS * STATIC_BRIGHT_PERCENTAGE = real_of_int 10"
    by (simp add: NUM_DOTS_def STATIC_BRIGHT_PERCENTAGE_def)
  show m: "num_moving = 20"
    unfolding num_moving_def a by (rule py_int_of_int)
  show s: "num_static_bright = 10"
    unfolding num_static_bright_def b by (rule py_int_of_int)
  show "num_pulsating = 170"
    unfolding num_pulsating_def m s by (simp add: NUM_DOTS_def)
qed

text \<open>
  The same counts come out of the floating-point products: \<open>3602879701896397 / 2 ^ 55\<close>
  and \<open>3602879701896397 / 2 ^ 56\<close> are the binary64 values of the literals \<open>0.1\<close> and
  \<open>0.05\<close>.
\<close>

lemma counts_in_floating_point:
  assumes "binary64_like F"
  shows "py_int (fl_mul F (to_float F NUM_DOTS) (3602879701896397 / 2 ^ 55)) = num_moving"
    and "py_int (fl_mul F (to_float F NUM_DOTS) (3602879701896397 / 2 ^ 56)) = num_static_bright"
proof -
  have n: "to_float F NUM_DOTS = 200"
    using to_float_small [OF assms, of 200] by (simp add: NUM_DOTS_def)
  have r: "rnd F 20 = 20" "rnd F (41 / 2) = 41 / 2" "rnd F 10 = 10" "rnd F (21 / 2) = 21 / 2"
    using rnd_int [OF assms, of 20] rnd_dyadic [OF assms, of 41 1]
      rnd_int [OF assms, of 10] rnd_dyadic [OF assms, of 21 1]
    by simp_all
  let ?a = "200 * (3602879701896397 / 2 ^ 55) :: real"
  let ?b = "200 * (3602879701896397 / 2 ^ 56) :: real"
  have "rnd F 20 \<le> rnd F ?a" "rnd F ?a \<le> rnd F (41 / 2)"
    by (rule rnd_mono [OF assms], simp)+
  then have a: "20 \<le> rnd F ?a" "rnd F ?a \<le> 41 / 2"
    by (simp_all only: r)
  have "rnd F 10 \<le> rnd F ?b" "rnd F ?b \<le> rnd F (21 / 2)"
    by (rule rnd_mono [OF assms], simp)+
  then have b: "10 \<le> rnd F ?b" "rnd F ?b \<le> 21 / 2"
    by (simp_all only: r)
  have "\<lfloor>rnd F ?a\<rfloor> = 20"
    using a by (simp only: floor_eq_iff) simp
  moreover have "\<lfloor>rnd F ?b\<rfloor> = 10"
    using b by (simp only: floor_eq_iff) simp
  ultimately show
    "py_int (fl_mul F (to_float F NUM_DOTS) (3602879701896397 / 2 ^ 55)) = num_moving"
    "py_int (fl_mul F (to_float F NUM_DOTS) (3602879701896397 / 2 ^ 56)) = num_static_bright"
    using a b by (simp_all only: fl_mul_def n py_int_def counts_default) simp_all
qed

lemma create_dots_blocks:
  "\<exists>a b c g1. create_dots R g = (a @ b @ c, g1)
     \<and> length a = 20 \<and> length b = 10 \<and> length c = 170
     \<and> list_all (\<lambda>d. is_moving d \<and> \<not> is_static_bright d) a
     \<and> list_all (\<lambda>d. \<not> is_moving d \<and> is_static_bright d) b
     \<and> list_all (\<lambda>d. \<not> is_moving d \<and> \<not> is_static_bright d) c"
proof -
  obtain a g1 where 1: "for_range 20 (add_moving_dot R) ([], g) = ([] @ a, g1)"
    and la: "length a = 20" and pa: "list_all (\<lambda>d. is_moving d \<and> \<not> is_static_bright d) a"
    using for_range_appends [of "add_moving_dot R" "\<lambda>d. is_moving d \<and> \<not> is_static_bright d" 20 "[]" g]
      add_moving_dot_appends [of R] by blast
  obtain b g2 where 2: "for_range 10 (add_static_bright_dot R) (a, g1) = (a @ b, g2)"
    and lb: "length b = 10" and pb: "list_all (\<lambda>d. \<not> is_moving d \<and> is_static_bright d) b"
    using for_range_appends [of "add_static_bright_dot R" "\<lambda>d. \<not> is_moving d \<and> is_static_bright d" 10 a g1]
      add_static_bright_dot_appends [of R] by blast
  obtain c g3 where 3: "for_range 170 (add_pulsating_dot R) (a @ b, g2) = ((a @ b) @ c, g3)"
    and lc: "length c = 170" and pc: "list_all (\<lambda>d. \<not> is_moving d \<and> \<not> is_static_bright d) c"
    using for_range_appends [of "add_pulsating_dot R" "\<lambda>d. \<not> is_moving d \<and> \<not> is_static_bright d" 170 "a @ b" g2]
      add_pulsating_dot_appends [of R] by blast
  have "create_dots R g = (a @ b @ c, g3)"
    unfolding create_dots_def Let_def counts_default using 1 2 3 by simp
  then show ?thesis using la lb lc pa pb pc by blast
qed

lemma create_dots_flags:
  "map (\<lambda>d. (is_moving d, is_static_bright d)) (fst (create_dots R g)) =
     replicate 20 (True, False) @ replicate 10 (False, True) @ replicate 170 (False, False)"
proof -
  have rep: "list_all (\<lambda>d. f d = v) ds \<Longrightarrow> map f ds = replicate (length ds) v"
    for f :: "dot \<Rightarrow> bool \<times> bool" and v ds
    by (induction ds) simp_all
  obtain a b c g1 where cd: "create_dots R g = (a @ b @ c, g1)"
    and l: "length a = 20" "length b = 10" "length c = 170"
    and pa: "list_all (\<lambda>d. is_moving d \<and> \<not> is_static_bright d) a"
    and pb: "list_all (\<lambda>d. \<not> is_moving d \<and> is_static_bright d) b"
    and pc: "list_all (\<lambda>d. \<not> is_moving d \<and> \<not> is_static_bright d) c"
    using create_dots_blocks [of R g] by blast
  have "list_all (\<lambda>d. (is_moving d, is_static_bright d) = (True, False)) a"
    using pa by simp
  from rep [OF this] have ma:
    "map (\<lambda>d. (is_moving d, is_static_bright d)) a = replicate 20 (True, False)"
    using l by simp
  have "list_all (\<lambda>d. (is_moving d, is_static_bright d) = (False, True)) b"
    using pb by simp
  from rep [OF this] have mb:
    "map (\<lambda>d. (is_moving d, is_static_bright d)) b = replicate 10 (False, True)"
    using l by simp
  have "list_all (\<lambda>d. (is_moving d, is_static_bright d) = (False, False)) c"
    using pc by simp
  from rep [OF this] have mc:
    "map (\<lambda>d. (is_moving d, is_static_bright d)) c = replicate 170 (False, False)"
    using l by simp
  show ?thesis by (simp add: cd ma mb mc)
qed

text \<open>Anything computed from the two flags, mapped over the population or counted in it.\<close>

lemma create_dots_map_flags:
  assumes "\<And>d. f d = h (is_moving d, is_static_bright d)"
  shows "map f (fst (create_dots R g)) =
     replicate 20 (h (True, False)) @ replicate 10 (h (False, True))
       @ replicate 170 (h (False, False))"
proof -
  have "map f (fst (create_dots R g)) =
        map h (map (\<lambda>d. (is_moving d, is_static_bright d)) (fst (create_dots R g)))"
    by (simp add: assms o_def)
  then show ?thesis
    unfolding create_dots_flags by simp
qed

lemma create_dots_count:
  assumes "\<And>d. P d = h (is_moving d, is_static_bright d)"
  shows "length (filter P (fst (create_dots R g))) =
     (if h (True, False) then 20 else 0) + (if h (False, True) then 10 else 0)
       + (if h (False, False) then 170 else 0)"
proof -
  have "length (filter P (fst (create_dots R g))) =
        length (filter h (map (\<lambda>d. (is_moving d, is_static_bright d)) (fst (create_dots R g))))"
    by (simp add: filter_map o_def assms [symmetric])
  then show ?thesis
    unfolding create_dots_flags by simp
qed

lemma create_dots_length: "length (fst (create_dots R g)) = 200"
  using arg_cong [OF create_dots_flags [of R g], of length] by simp

section \<open>Properties of Dot.update\<close>

text \<open>
  Claim C8. For a dot that is not moving, \<open>update\<close> changes nothing at any frame index:
  the whole object, hence position, velocity, initial position, phase and both flags,
  is returned as it was.
\<close>

theorem update_not_moving_noop:
  "\<not> is_moving d \<Longrightarrow> update F d n = d"
  by (simp add: update_def)

theorem update_not_moving_noop_witness:
  "\<not> is_moving (a_dot 7 9 False True 1 0 0)
   \<and> update exact_arith (a_dot 7 9 False True 1 0 0) 3 = a_dot 7 9 False True 1 0 0"
  using update_not_moving_noop [of "a_dot 7 9 False True 1 0 0" exact_arith 3]
  by simp

text \<open>
  Claim C1. For a moving dot and any frame index, after \<open>update\<close> the position lies in
  \<open>[0, WIDTH]\<close> on the x axis and in \<open>[0, HEIGHT]\<close> on the y axis. On each axis by
  itself, the velocity component is multiplied by \<open>-1\<close> exactly when the advanced
  coordinate (the floating-point sum of the old coordinate and the old velocity, not
  yet clamped) is \<open>\<le> 0\<close> or \<open>\<ge>\<close> the bound, and is kept otherwise; in that case the
  coordinate is then clamped into \<open>[0, bound]\<close>. Both axes can bounce in one call.
  In an arithmetic like binary64 the product with \<open>-1\<close> of a velocity that is a value
  of the format is its negation.
\<close>

theorem update_moving_bounds_and_bounce:
  assumes "is_moving d"
  shows "0 \<le> x (update F d n) \<and> x (update F d n) \<le> real_of_int WIDTH
       \<and> 0 \<le> y (update F d n) \<and> y (update F d n) \<le> real_of_int HEIGHT
       \<and> dx (update F d n) =
           (if fl_add F (x d) (dx d) \<le> 0 \<or> fl_add F (x d) (dx d) \<ge> real_of_int WIDTH
            then fl_mul F (dx d) (to_float F (- 1)) else dx d)
       \<and> dy (update F d n) =
           (if fl_add F (y d) (dy d) \<le> 0 \<or> fl_add F (y d) (dy d) \<ge> real_of_int HEIGHT
            then fl_mul F (dy d) (to_float F (- 1)) else dy d)
       \<and> x (update F d n) =
           (if fl_add F (x d) (dx d) \<le> 0 \<or> fl_add F (x d) (dx d) \<ge> real_of_int WIDTH
            then max 0 (min (real_of_int WIDTH) (fl_add F (x d) (dx d)))
            else fl_add F (x d) (dx d))
       \<and> y (update F d n) =
           (if fl_add F (y d) (dy d) \<le> 0 \<or> fl_add F (y d) (dy d) \<ge> real_of_int HEIGHT
            then max 0 (min (real_of_int HEIGHT) (fl_add F (y d) (dy d)))
            else fl_add F (y d) (dy d))
       \<and> (binary64_like F \<and> rnd F (dx d) = dx d \<and> rnd F (dy d) = dy d \<longrightarrow>
            fl_mul F (dx d) (to_float F (- 1)) = - dx d
          \<and> fl_mul F (dy d) (to_float F (- 1)) = - dy d)"
proof -
  have neg: "binary64_like F \<and> rnd F (dx d) = dx d \<and> rnd F (dy d) = dy d \<longrightarrow>
            fl_mul F (dx d) (to_float F (- 1)) = - dx d
          \<and> fl_mul F (dy d) (to_float F (- 1)) = - dy d"
    by (simp add: negate_float)
  have rest: "0 \<le> x (update F d n) \<and> x (update F d n) \<le> real_of_int WIDTH
       \<and> 0 \<le> y (update F d n) \<and> y (update F d n) \<le> real_of_int HEIGHT
       \<and> dx (update F d n) =
           (if fl_add F (x d) (dx d) \<le> 0 \<or> fl_add F (x d) (dx d) \<ge> real_of_int WIDTH
            then fl_mul F (dx d) (to_float F (- 1)) else dx d)
       \<and> dy (update F d n) =
           (if fl_add F (y d) (dy d) \<le> 0 \<or> fl_add F (y d) (dy d) \<ge> real_of_int HEIGHT
            then fl_mul F (dy d) (to_float F (- 1)) else dy d)
       \<and> x (update F d n) =
           (if fl_add F (x d) (dx d) \<le> 0 \<or> fl_add F (x d) (dx d) \<ge> real_of_int WIDTH
            then max 0 (min (real_of_int WIDTH) (fl_add F (x d) (dx d)))
            else fl_add F (x d) (dx d))
       \<and> y (update F d n) =
           (if fl_add F (y d) (dy d) \<le> 0 \<or> fl_add F (y d) (dy d) \<ge> real_of_int HEIGHT
            then max 0 (min (real_of_int HEIGHT) (fl_add F (y d) (dy d)))
            else fl_add F (y d) (dy d))"
    using assms by (auto simp: update_def Let_def WIDTH_def HEIGHT_def)
  from rest neg show ?thesis by simp
qed

theorem update_moving_bounds_and_bounce_witness:
  "is_moving (a_dot 511 1 True False 0 2 (- 3))
   \<and> binary64_like exact_arith
   \<and> rnd exact_arith (dx (a_dot 511 1 True False 0 2 (- 3))) = 2
   \<and> rnd exact_arith (dy (a_dot 511 1 True False 0 2 (- 3))) = - 3
   \<and> x (update exact_arith (a_dot 511 1 True False 0 2 (- 3)) 4) = 512
   \<and> dx (update exact_arith (a_dot 511 1 True False 0 2 (- 3)) 4) = - 2
   \<and> y (update exact_arith (a_dot 511 1 True False 0 2 (- 3)) 4) = 0
   \<and> dy (update exact_arith (a_dot 511 1 True False 0 2 (- 3)) 4) = 3"
  using update_moving_bounds_and_bounce [of "a_dot 511 1 True False 0 2 (- 3)" exact_arith 4]
    binary64_like_exact
  by (simp add: WIDTH_def HEIGHT_def fl_add_def)

section \<open>Properties of \<open>Dot.get_size\<close>\<close>






section \<open>Properties of \<open>Dot.is_true_event\<close>\<close>

text \<open>
  Claim C4. \<open>is_true_event\<close> holds exactly for a dot whose category is
  StationaryPulsating, that is, a dot neither moving nor static-bright. It is a function
  of the two flags (the object has no field for it), and it keeps its value through
  \<open>update\<close>, through a call of \<open>draw_frame\<close>, after any number of frames, and through
  the whole frame loop.
\<close>

theorem is_true_event_iff_stationary_pulsating:
  "is_true_event d = (category_of d = Some StationaryPulsating)
   \<and> is_true_event d = (\<not> is_moving d \<and> \<not> is_static_bright d)
   \<and> is_true_event (update F d n) = is_true_event d
   \<and> map is_true_event (snd (draw_frame F cv ds n)) = map is_true_event ds
   \<and> map is_true_event (dots_at F ds k) = map is_true_event ds
   \<and> map is_true_event (snd (frame_loop F cv [0..<FRAMES] ds [])) = map is_true_event ds"
  using frame_loop_upt [of F cv 0 FRAMES ds "[]"]
  by (simp add: is_true_event_update draw_frame_snd dots_at_map o_def)
     (auto simp: is_true_event_def category_of_def)

section \<open>Properties of \<open>draw_frame\<close>\<close>

text \<open>
  Claim C7. \<open>draw_frame\<close> starts from a new all-zero image of \<open>HEIGHT \<times> WIDTH\<close> pixels
  with 3 channels, whatever was drawn before: its result is the blur of that image
  after painting the updated dots in order. A dot whose size at this frame is \<open>0\<close> is
  not drawn: painting it leaves the image as it is, and the frame is the one obtained
  without that dot in the population, whatever \<open>cv2.circle\<close> would do with radius 0.
\<close>

theorem draw_frame_fresh_and_skips_zero:
  "fst (draw_frame F cv dots n) =
     GaussianBlur cv
       (foldl (paint F cv n) (np_zeros (HEIGHT, WIDTH, 3)) (map (\<lambda>d. update F d n) dots))
       (BLUR_KERNEL_SIZE, BLUR_KERNEL_SIZE) BLUR_SIGMA
   \<and> np_zeros (HEIGHT, WIDTH, 3) = replicate 512 (replicate 512 (replicate 3 0))
   \<and> (get_size F d n = 0 \<longrightarrow>
        paint F cv n fr (update F d n) = fr
      \<and> fst (draw_frame F cv (ds1 @ d # ds2) n) = fst (draw_frame F cv (ds1 @ ds2) n))"
  by (simp add: draw_frame_fst paint_invisible np_zeros_def HEIGHT_def WIDTH_def)

theorem draw_frame_fresh_and_skips_zero_witness:
  "get_size sample_arith (a_dot 9 9 False False (2652839157010665 / 562949953421312) 0 0) 0 = 0
   \<and> fst (draw_frame sample_arith
        \<lparr>circle = (\<lambda>fr c r col t. []), GaussianBlur = (\<lambda>fr k s. fr)\<rparr>
        ([] @ a_dot 9 9 False False (2652839157010665 / 562949953421312) 0 0 # []) 0)
     = np_zeros (HEIGHT, WIDTH, 3)"
proof -
  have z: "get_size sample_arith (a_dot 9 9 False False (2652839157010665 / 562949953421312) 0 0) 0 = 0"
    by (simp add: get_size_def pulse_def fl_add_def fl_mul_def fl_div_def to_float_def
        py_int_def)
  show ?thesis
    using z draw_frame_fresh_and_skips_zero
      [of sample_arith "\<lparr>circle = (\<lambda>fr c r col t. []), GaussianBlur = (\<lambda>fr k s. fr)\<rparr>"
          "[]" 0 "a_dot 9 9 False False (2652839157010665 / 562949953421312) 0 0" "[]" "[]" "[]"]
    by simp
qed

section \<open>Properties of \<open>create_dots\<close> and \<open>save_dot_list\<close>\<close>

text \<open>
  Claim C3. The counts are \<open>num_moving = floor (total_count * moving_fraction)\<close>,
  \<open>num_static_bright = floor (total_count * static_bright_fraction)\<close> and
  \<open>num_pulsating = total_count - num_moving - num_static_bright\<close>, so the three sum to
  \<open>total_count\<close>, for the program's \<open>total_count = 200\<close>, \<open>moving_fraction = 0.1\<close> and
  \<open>static_bright_fraction = 0.05\<close>. With them \<open>create_dots\<close> builds exactly 20 moving,
  10 static-bright and 170 stationary pulsating dots, 200 in all, and the summary of
  \<open>save_dot_list\<close> reports 170 true events and 30 false events, whatever the random
  draws.
\<close>

theorem create_dots_counts:
  "num_moving = \<lfloor>real_of_int NUM_DOTS * MOVING_PERCENTAGE\<rfloor>
   \<and> num_static_bright = \<lfloor>real_of_int NUM_DOTS * STATIC_BRIGHT_PERCENTAGE\<rfloor>
   \<and> num_pulsating = NUM_DOTS - num_moving - num_static_bright
   \<and> num_moving + num_static_bright + num_pulsating = NUM_DOTS
   \<and> NUM_DOTS = 200 \<and> MOVING_PERCENTAGE = 0.1 \<and> STATIC_BRIGHT_PERCENTAGE = 0.05
   \<and> num_moving = 20 \<and> num_static_bright = 10 \<and> num_pulsating = 170
   \<and> length (filter (\<lambda>d. category_of d = Some Moving) (fst (create_dots R g))) = 20
   \<and> length (filter (\<lambda>d. category_of d = Some StaticBright) (fst (create_dots R g))) = 10
   \<and> length (filter (\<lambda>d. category_of d = Some StationaryPulsating) (fst (create_dots R g))) = 170
   \<and> length (fst (create_dots R g)) = 200
   \<and> true_events (save_dot_list (fst (create_dots R g))) = 170
   \<and> false_events (save_dot_list (fst (create_dots R g))) = 30
   \<and> total_dots (save_dot_list (fst (create_dots R g))) = 200
   \<and> true_events (fst (main F R cv g)) = 170
   \<and> false_events (fst (main F R cv g)) = 30"
proof -
  let ?cat = "\<lambda>(m, s). if m \<and> s then None else if m then Some Moving
                 else if s then Some StaticBright else Some StationaryPulsating"
  have cat: "category_of d = ?cat (is_moving d, is_static_bright d)" for d
    by (simp add: category_of_def)
  have fl: "num_moving = \<lfloor>real_of_int NUM_DOTS * MOVING_PERCENTAGE\<rfloor>"
    "num_static_bright = \<lfloor>real_of_int NUM_DOTS * STATIC_BRIGHT_PERCENTAGE\<rfloor>"
    by (simp_all add: num_moving_def num_static_bright_def py_int_def NUM_DOTS_def
        MOVING_PERCENTAGE_def STATIC_BRIGHT_PERCENTAGE_def)
  have sum: "num_pulsating = NUM_DOTS - num_moving - num_static_bright"
    "num_moving + num_static_bright + num_pulsating = NUM_DOTS"
    by (simp_all add: num_pulsating_def)
  have cfg: "NUM_DOTS = 200" "MOVING_PERCENTAGE = 0.1" "STATIC_BRIGHT_PERCENTAGE = 0.05"
    by (simp_all add: NUM_DOTS_def MOVING_PERCENTAGE_def STATIC_BRIGHT_PERCENTAGE_def)
  have m: "length (filter (\<lambda>d. category_of d = Some Moving) (fst (create_dots R g))) = 20"
    using create_dots_count [of "\<lambda>d. category_of d = Some Moving" "\<lambda>p. ?cat p = Some Moving" R g]
    by (simp add: cat)
  have s: "length (filter (\<lambda>d. category_of d = Some StaticBright) (fst (create_dots R g))) = 10"
    using create_dots_count [of "\<lambda>d. category_of d = Some StaticBright" "\<lambda>p. ?cat p = Some StaticBright" R g]
    by (simp add: cat)
  have p: "length (filter (\<lambda>d. category_of d = Some StationaryPulsating) (fst (create_dots R g))) = 170"
    using create_dots_count [of "\<lambda>d. category_of d = Some StationaryPulsating"
        "\<lambda>p. ?cat p = Some StationaryPulsating" R g]
    by (simp add: cat)
  have te: "length (filter is_true_event (fst (create_dots R g))) = 170"
    using create_dots_count [of is_true_event "\<lambda>(m, s). \<not> m \<and> \<not> s" R g]
    by (simp add: is_true_event_def)
  have out: "true_events (save_dot_list (fst (create_dots R g))) = 170"
    "false_events (save_dot_list (fst (create_dots R g))) = 30"
    "total_dots (save_dot_list (fst (create_dots R g))) = 200"
    by (simp_all add: save_dot_list_def Let_def te create_dots_length)
  have mn: "fst (main F R cv g) = save_dot_list (fst (create_dots R g))"
    by (simp add: main_def Let_def case_prod_beta)
  show ?thesis
    unfolding mn
    by (intro conjI fl sum cfg counts_default m s p out create_dots_length)
qed

text \<open>
  Claim C10. The list \<open>create_dots\<close> returns is grouped by category in a fixed order:
  the first \<open>num_moving\<close> (20) dots are Moving, the next \<open>num_static_bright\<close> (10) are
  StaticBright, the remaining \<open>num_pulsating\<close> (170) are StationaryPulsating; the
  records of the manifest, which \<open>main\<close> writes from this list, carry their flags in
  the same block order.
\<close>

theorem create_dots_category_blocks:
  "map category_of (fst (create_dots R g)) =
     replicate 20 (Some Moving) @ replicate 10 (Some StaticBright)
       @ replicate 170 (Some StationaryPulsating)
   \<and> nat num_moving = 20
   \<and> nat num_static_bright = 10
   \<and> nat num_pulsating = 170
   \<and> map (\<lambda>r. (map_of r ''is_moving'', map_of r ''is_static_bright''))
        (dot_list (save_dot_list (fst (create_dots R g)))) =
     replicate 20 (Some (JBool True), Some (JBool False))
       @ replicate 10 (Some (JBool False), Some (JBool True))
       @ replicate 170 (Some (JBool False), Some (JBool False))
   \<and> dot_list (fst (main F R cv g)) = map to_dict (fst (create_dots R g))"
proof -
  have 1: "map category_of (fst (create_dots R g)) =
     replicate 20 (Some Moving) @ replicate 10 (Some StaticBright)
       @ replicate 170 (Some StationaryPulsating)"
    using create_dots_map_flags [of category_of
        "\<lambda>(m, s). if m \<and> s then None else if m then Some Moving
                 else if s then Some StaticBright else Some StationaryPulsating" R g]
    by (simp add: category_of_def)
  have 2: "map (\<lambda>r. (map_of r ''is_moving'', map_of r ''is_static_bright''))
        (dot_list (save_dot_list (fst (create_dots R g)))) =
     replicate 20 (Some (JBool True), Some (JBool False))
       @ replicate 10 (Some (JBool False), Some (JBool True))
       @ replicate 170 (Some (JBool False), Some (JBool False))"
    using create_dots_map_flags
      [of "\<lambda>d. (map_of (to_dict d) ''is_moving'', map_of (to_dict d) ''is_static_bright'')"
          "\<lambda>(m, s). (Some (JBool m), Some (JBool s))" R g]
    by (simp add: save_dot_list_def Let_def o_def to_dict_def)
  have 3: "dot_list (fst (main F R cv g)) = map to_dict (fst (create_dots R g))"
    by (simp add: main_def Let_def case_prod_beta save_dot_list_def)
  show ?thesis using 1 2 3 by (simp add: counts_default)
qed

text \<open>
  Claim C5. The manifest is the list of \<open>to_dict d\<close> for the dots \<open>d\<close> in population
  order, one record per dot. A record holds the initial position on both axes (the
  position given at construction, which \<open>update\<close> never changes) and the booleans
  \<open>is_true_event\<close>, \<open>is_moving\<close>, \<open>is_static_bright\<close> and \<open>is_pulsating\<close>, the last one
  true exactly for a dot that is not static-bright. A record with \<open>is_true_event\<close> true
  has \<open>is_pulsating\<close> true and \<open>is_moving\<close> and \<open>is_static_bright\<close> false; for a dot of
  category \<open>c\<close> the four booleans are those of \<open>c\<close>; and every dot \<open>create_dots\<close> builds
  has one category.
\<close>

theorem manifest_records:
  "dot_list (save_dot_list dots) = map to_dict dots
   \<and> length (dot_list (save_dot_list dots)) = length dots
   \<and> map fst (to_dict d) =
       [''initial_x'', ''initial_y'', ''is_true_event'', ''is_moving'', ''is_static_bright'',
        ''is_pulsating'']
   \<and> map_of (to_dict d) ''initial_x'' = Some (JNum (initial_x d))
   \<and> map_of (to_dict d) ''initial_y'' = Some (JNum (initial_y d))
   \<and> map_of (to_dict d) ''is_true_event'' = Some (JBool (is_true_event d))
   \<and> map_of (to_dict d) ''is_moving'' = Some (JBool (is_moving d))
   \<and> map_of (to_dict d) ''is_static_bright'' = Some (JBool (is_static_bright d))
   \<and> map_of (to_dict d) ''is_pulsating'' = Some (JBool (\<not> is_static_bright d))
   \<and> initial_x (fst (Dot_init R px py mv sb g)) = px
   \<and> initial_y (fst (Dot_init R px py mv sb g)) = py
   \<and> initial_x (update F d n) = initial_x d
   \<and> initial_y (update F d n) = initial_y d
   \<and> (map_of (to_dict d) ''is_true_event'' = Some (JBool True) \<longrightarrow>
        map_of (to_dict d) ''is_pulsating'' = Some (JBool True)
      \<and> map_of (to_dict d) ''is_moving'' = Some (JBool False)
      \<and> map_of (to_dict d) ''is_static_bright'' = Some (JBool False))
   \<and> (category_of d = Some c \<longrightarrow>
        map snd (drop 2 (to_dict d)) =
          [JBool (c = StationaryPulsating), JBool (c = Moving), JBool (c = StaticBright),
           JBool (c \<noteq> StaticBright)])
   \<and> None \<notin> set (map category_of (fst (create_dots R g)))"
proof -
  have cats: "None \<notin> set (map category_of (fst (create_dots R g)))"
    using create_dots_map_flags [of category_of
        "\<lambda>(m, s). if m \<and> s then None else if m then Some Moving
                 else if s then Some StaticBright else Some StationaryPulsating" R g]
    by (simp add: category_of_def)
  have cons: "category_of d = Some c \<longrightarrow>
        map snd (drop 2 (to_dict d)) =
          [JBool (c = StationaryPulsating), JBool (c = Moving), JBool (c = StaticBright),
           JBool (c \<noteq> StaticBright)]"
    by (auto simp: category_of_def to_dict_def is_true_event_def split: if_splits)
  have rest: "dot_list (save_dot_list dots) = map to_dict dots
   \<and> length (dot_list (save_dot_list dots)) = length dots"
    by (simp add: save_dot_list_def Let_def)
  have keys: "map fst (to_dict d) =
       [''initial_x'', ''initial_y'', ''is_true_event'', ''is_moving'', ''is_static_bright'',
        ''is_pulsating'']"
    by (simp add: to_dict_def)
  have look: "map_of (to_dict d) ''initial_x'' = Some (JNum (initial_x d))"
    "map_of (to_dict d) ''initial_y'' = Some (JNum (initial_y d))"
    "map_of (to_dict d) ''is_true_event'' = Some (JBool (is_true_event d))"
    "map_of (to_dict d) ''is_moving'' = Some (JBool (is_moving d))"
    "map_of (to_dict d) ''is_static_bright'' = Some (JBool (is_static_bright d))"
    "map_of (to_dict d) ''is_pulsating'' = Some (JBool (\<not> is_static_bright d))"
    by (simp_all add: to_dict_def)
  have impl: "map_of (to_dict d) ''is_true_event'' = Some (JBool True) \<longrightarrow>
        map_of (to_dict d) ''is_pulsating'' = Some (JBool True)
      \<and> map_of (to_dict d) ''is_moving'' = Some (JBool False)
      \<and> map_of (to_dict d) ''is_static_bright'' = Some (JBool False)"
    unfolding look by (simp add: is_true_event_def)
  show ?thesis
    by (intro conjI cats cons keys look impl conjunct1 [OF rest] conjunct2 [OF rest]
        Dot_init_flags update_keeps)
qed

theorem manifest_records_witness:
  "map_of (to_dict (a_dot 3 4 False False 1 0 0)) ''is_true_event'' = Some (JBool True)
   \<and> map_of (to_dict (a_dot 3 4 False False 1 0 0)) ''is_pulsating'' = Some (JBool True)
   \<and> map_of (to_dict (a_dot 3 4 False False 1 0 0)) ''is_moving'' = Some (JBool False)
   \<and> map_of (to_dict (a_dot 3 4 False False 1 0 0)) ''is_static_bright'' = Some (JBool False)
   \<and> category_of (a_dot 3 4 False False 1 0 0) = Some StationaryPulsating
   \<and> map snd (drop 2 (to_dict (a_dot 3 4 False False 1 0 0))) =
       [JBool True, JBool False, JBool False, JBool True]"
  using manifest_records
    [where d = "a_dot 3 4 False False 1 0 0" and c = StationaryPulsating
       and dots = "[a_dot 3 4 False False 1 0 0]"
       and R = "\<lparr>randint = (\<lambda>lo hi s. (lo, s)), uniform = (\<lambda>lo hi s. (lo, s))\<rparr>"
       and g = "0 :: nat" and px = 3 and py = 4 and mv = False and sb = False and n = 0
       and F = exact_arith]
  by (simp add: is_true_event_def category_of_def)

section \<open>Properties of main\<close>

text \<open>
  Claim C9. The frame loop of \<open>main\<close> renders frame indices \<open>0, 1, \<dots>, FRAMES - 1\<close> in
  this order, once each: the output list is the list of the frames \<open>draw_frame\<close>
  returns at index \<open>k\<close> on the dots as they are after the indices below \<open>k\<close>, for \<open>k\<close>
  from \<open>0\<close> to \<open>FRAMES - 1\<close>; it has \<open>FRAMES = 500\<close> entries. The dots change only
  through these calls: the dots before index \<open>k + 1\<close> are those \<open>draw_frame\<close> returns at
  index \<open>k\<close>, so that every dot has received \<open>update\<close> once per index, in increasing
  order.
\<close>

theorem main_renders_each_frame_once_in_order:
  "frame_loop F cv [0..<FRAMES] dots [] =
     (map (\<lambda>k. fst (draw_frame F cv (dots_at F dots k) (int k))) [0..<FRAMES],
      dots_at F dots FRAMES)
   \<and> dots_at F dots 0 = dots
   \<and> dots_at F dots (Suc k) = snd (draw_frame F cv (dots_at F dots k) (int k))
   \<and> dots_at F dots k = map (\<lambda>d. fold (\<lambda>j e. update F e (int j)) [0..<k] d) dots
   \<and> snd (main F R cv g) =
       map (\<lambda>k. fst (draw_frame F cv (dots_at F (fst (create_dots R g)) k) (int k))) [0..<FRAMES]
   \<and> length (snd (main F R cv g)) = FRAMES
   \<and> FRAMES = 500"
proof -
  have loop: "frame_loop F cv [0..<FRAMES] ds [] =
     (map (\<lambda>k. fst (draw_frame F cv (dots_at F ds k) (int k))) [0..<FRAMES],
      dots_at F ds FRAMES)" for ds
    using frame_loop_upt [of F cv 0 FRAMES ds "[]"] by simp
  have m: "snd (main F R cv g) =
       map (\<lambda>k. fst (draw_frame F cv (dots_at F (fst (create_dots R g)) k) (int k))) [0..<FRAMES]"
    by (simp add: main_def Let_def loop case_prod_beta)
  show ?thesis
    using loop [of dots] m dots_at_fold [of F dots k]
    by (simp add: draw_frame_snd FRAMES_def)
qed

end
